theory Spec2Isabelle
  imports Main "HOL-Library.Word" "HOL-Library.Sublist"
begin

unbundle bit_operations_syntax

section \<open>Text, bytes and the SHA-256 digest\<close>

text \<open>
  The module \<^verbatim>\<open>manim/utils/tex_file_writing.py\<close> works on Python \<^verbatim>\<open>str\<close> values.
  The expression, the environment and the rendered document are modelled as lists of
  code points: a \<^verbatim>\<open>str\<close> is such a list with every element from 0 to \<^verbatim>\<open>0x10FFFF\<close>, and it
  may hold surrogate code points (\<^verbatim>\<open>0xD800\<close> to \<^verbatim>\<open>0xDFFF\<close>).  \<^verbatim>\<open>str(expression)\<close> is
  the identity on a \<^verbatim>\<open>str\<close>.  Paths, command lines and the contents of files are
  modelled by \<^typ>\<open>string\<close>, the bytes that reach the operating system; on them the
  module only concatenates, replaces and compares.
\<close>

type_synonym byte = "8 word"
type_synonym w32 = "32 word"
type_synonym ustr = "int list"

text \<open>The exceptions the module raises or lets through, named as in the specification.\<close>

datatype error =
    UnsupportedFormat
  | UnknownCompiler string
  | ToolchainMissing string
  | CompilationError string string string
  | ConversionUnsupported string
  | IndexError
  | IsADirectoryError string
  | UnicodeEncodeError
  | UnicodeDecodeError

definition is_str :: "ustr \<Rightarrow> bool" where
  "is_str t = list_all (\<lambda>c. 0 \<le> c \<and> c < 0x110000) t"

definition surrogate :: "int \<Rightarrow> bool" where
  "surrogate c = (0xD800 \<le> c \<and> c \<le> 0xDFFF)"

definition ascii :: "string \<Rightarrow> ustr" where
  "ascii s = map of_char s"

text \<open>
  \<^verbatim>\<open>id_str.encode()\<close>: the UTF-8 encoding with the error handler \<^verbatim>\<open>strict\<close>, which
  raises \<^verbatim>\<open>UnicodeEncodeError\<close> on a surrogate code point.
\<close>

definition utf8 :: "int \<Rightarrow> error + byte list" where
  "utf8 c =
     (if c < 0x80 then Inr [of_int c]
      else if c < 0x800 then Inr [of_int (0xC0 + c div 64), of_int (0x80 + c mod 64)]
      else if surrogate c then Inl UnicodeEncodeError
      else if c < 0x10000 then
        Inr [of_int (0xE0 + c div 4096), of_int (0x80 + c div 64 mod 64), of_int (0x80 + c mod 64)]
      else
        Inr [of_int (0xF0 + c div 262144), of_int (0x80 + c div 4096 mod 64),
             of_int (0x80 + c div 64 mod 64), of_int (0x80 + c mod 64)])"

fun encode :: "ustr \<Rightarrow> error + byte list" where
  "encode [] = Inr []"
| "encode (c # cs) =
     (case utf8 c of
        Inl e \<Rightarrow> Inl e
      | Inr bs \<Rightarrow> (case encode cs of Inl e \<Rightarrow> Inl e | Inr rest \<Rightarrow> Inr (bs @ rest)))"


text \<open>
  \<^verbatim>\<open>hashlib.sha256\<close> is the SHA-256 function of FIPS 180-4, written out below on 32-bit
  words.
\<close>

definition K256 :: "w32 list" where
  "K256 =
   [0x428A2F98, 0x71374491, 0xB5C0FBCF, 0xE9B5DBA5,
    0x3956C25B, 0x59F111F1, 0x923F82A4, 0xAB1C5ED5,
    0xD807AA98, 0x12835B01, 0x243185BE, 0x550C7DC3,
    0x72BE5D74, 0x80DEB1FE, 0x9BDC06A7, 0xC19BF174,
    0xE49B69C1, 0xEFBE4786, 0x0FC19DC6, 0x240CA1CC,
    0x2DE92C6F, 0x4A7484AA, 0x5CB0A9DC, 0x76F988DA,
    0x983E5152, 0xA831C66D, 0xB00327C8, 0xBF597FC7,
    0xC6E00BF3, 0xD5A79147, 0x06CA6351, 0x14292967,
    0x27B70A85, 0x2E1B2138, 0x4D2C6DFC, 0x53380D13,
    0x650A7354, 0x766A0ABB, 0x81C2C92E, 0x92722C85,
    0xA2BFE8A1, 0xA81A664B, 0xC24B8B70, 0xC76C51A3,
    0xD192E819, 0xD6990624, 0xF40E3585, 0x106AA070,
    0x19A4C116, 0x1E376C08, 0x2748774C, 0x34B0BCB5,
    0x391C0CB3, 0x4ED8AA4A, 0x5B9CCA4F, 0x682E6FF3,
    0x748F82EE, 0x78A5636F, 0x84C87814, 0x8CC70208,
    0x90BEFFFA, 0xA4506CEB, 0xBEF9A3F7, 0xC67178F2]"

type_synonym sha_state = "w32 \<times> w32 \<times> w32 \<times> w32 \<times> w32 \<times> w32 \<times> w32 \<times> w32"

definition sha_init :: sha_state where
  "sha_init =
   (0x6A09E667, 0xBB67AE85, 0x3C6EF372, 0xA54FF53A,
    0x510E527F, 0x9B05688C, 0x1F83D9AB, 0x5BE0CD19)"

definition rotr :: "nat \<Rightarrow> w32 \<Rightarrow> w32" where
  "rotr n x = word_rotr n x"

definition Ch :: "w32 \<Rightarrow> w32 \<Rightarrow> w32 \<Rightarrow> w32" where
  "Ch x y z = (x AND y) XOR (NOT x AND z)"

definition Maj :: "w32 \<Rightarrow> w32 \<Rightarrow> w32 \<Rightarrow> w32" where
  "Maj x y z = (x AND y) XOR (x AND z) XOR (y AND z)"

definition bsig0 :: "w32 \<Rightarrow> w32" where
  "bsig0 x = rotr 2 x XOR rotr 13 x XOR rotr 22 x"

definition bsig1 :: "w32 \<Rightarrow> w32" where
  "bsig1 x = rotr 6 x XOR rotr 11 x XOR rotr 25 x"

definition ssig0 :: "w32 \<Rightarrow> w32" where
  "ssig0 x = rotr 7 x XOR rotr 18 x XOR drop_bit 3 x"

definition ssig1 :: "w32 \<Rightarrow> w32" where
  "ssig1 x = rotr 17 x XOR rotr 19 x XOR drop_bit 10 x"

text \<open>Padding: a byte 0x80, zero bytes up to 56 modulo 64, the bit length on 64 bits.\<close>

definition length_bytes :: "nat \<Rightarrow> byte list" where
  "length_bytes n =
     map (\<lambda>i. ucast (drop_bit (8 * i) (of_nat n :: 64 word))) [7, 6, 5, 4, 3, 2, 1, 0]"

definition pad :: "byte list \<Rightarrow> byte list" where
  "pad m =
     m @ [0x80] @ replicate ((119 - length m mod 64) mod 64) 0 @ length_bytes (8 * length m)"

fun to_words :: "byte list \<Rightarrow> w32 list" where
  "to_words (a # b # c # d # bs) =
     (push_bit 24 (ucast a) OR push_bit 16 (ucast b) OR push_bit 8 (ucast c) OR ucast d)
       # to_words bs"
| "to_words _ = []"

text \<open>
  The 64 rounds of one block.  The message schedule is kept as a sliding window of
  sixteen words: its head is the word of the current round, and the word sixteen rounds
  ahead is appended.
\<close>

fun rounds :: "w32 list \<Rightarrow> w32 list \<Rightarrow> sha_state \<Rightarrow> sha_state" where
  "rounds [] ws s = s"
| "rounds (k # ks) ws (a, b, c, d, e, f, g, h) =
     (let w = ws ! 0;
          t1 = h + bsig1 e + Ch e f g + k + w;
          t2 = bsig0 a + Maj a b c;
          wn = ssig1 (ws ! 14) + ws ! 9 + ssig0 (ws ! 1) + w
      in rounds ks (tl ws @ [wn]) (t1 + t2, a, b, c, d + t1, e, f, g))"

definition compress :: "sha_state \<Rightarrow> w32 list \<Rightarrow> sha_state" where
  "compress s ws =
     (case s of (a, b, c, d, e, f, g, h) \<Rightarrow>
        (case rounds K256 ws s of (a', b', c', d', e', f', g', h') \<Rightarrow>
           (a + a', b + b', c + c', d + d', e + e', f + f', g + g', h + h')))"

fun blocks :: "sha_state \<Rightarrow> w32 list \<Rightarrow> nat \<Rightarrow> sha_state" where
  "blocks s ws 0 = s"
| "blocks s ws (Suc n) = blocks (compress s (take 16 ws)) (drop 16 ws) n"

definition word_bytes :: "w32 \<Rightarrow> byte list" where
  "word_bytes w = [ucast (drop_bit 24 w), ucast (drop_bit 16 w), ucast (drop_bit 8 w), ucast w]"

definition sha256 :: "byte list \<Rightarrow> byte list" where
  "sha256 m =
     (let p = pad m in
      case blocks sha_init (to_words p) (length p div 64) of
        (a, b, c, d, e, f, g, h) \<Rightarrow> concat (map word_bytes [a, b, c, d, e, f, g, h]))"

definition hex_digit :: "nat \<Rightarrow> char" where
  "hex_digit n = ''0123456789abcdef'' ! (n mod 16)"

definition hex_byte :: "byte \<Rightarrow> string" where
  "hex_byte b = [hex_digit (unat b div 16), hex_digit (unat b mod 16)]"

definition hexdigest :: "byte list \<Rightarrow> string" where
  "hexdigest m = concat (map hex_byte (sha256 m))"

subsection \<open>\<^verbatim>\<open>tex_hash\<close>\<close>

definition tex_hash :: "ustr \<Rightarrow> error + string" where
  "tex_hash expression =
     (case encode expression of
        Inl e \<Rightarrow> Inl e
      | Inr id_bytes \<Rightarrow> Inr (take 16 (hexdigest id_bytes)))"

section \<open>Python string and path operations\<close>

text \<open>The double quote, which the f-strings of the module put around paths.\<close>

definition dq :: string where
  "dq = [CHR 0x22]"

text \<open>\<^verbatim>\<open>sep.join(xs)\<close>.\<close>

fun join_with :: "string \<Rightarrow> string list \<Rightarrow> string" where
  "join_with sep [] = []"
| "join_with sep [x] = x"
| "join_with sep (x # y # ys) = x @ sep @ join_with sep (y # ys)"

text \<open>
  \<^verbatim>\<open>s.replace(old, new)\<close>: every non-overlapping occurrence of \<^verbatim>\<open>old\<close>, from the left,
  is replaced.  With an empty \<^verbatim>\<open>old\<close>, Python puts \<^verbatim>\<open>new\<close> before every character and
  at the end.
\<close>

fun replace_ne :: "string \<Rightarrow> string \<Rightarrow> string \<Rightarrow> string" where
  "replace_ne old new [] = []"
| "replace_ne old new (c # cs) =
     (if old \<noteq> [] \<and> prefix old (c # cs)
      then new @ replace_ne old new (drop (length old - 1) cs)
      else c # replace_ne old new cs)"

definition replace :: "string \<Rightarrow> string \<Rightarrow> string \<Rightarrow> string" where
  "replace old new s =
     (if old = [] then new @ concat (map (\<lambda>c. c # new) s) else replace_ne old new s)"

text \<open>\<^verbatim>\<open>s.split(sep)\<close> for a one-character separator.\<close>

fun split_on :: "char \<Rightarrow> string \<Rightarrow> string list" where
  "split_on sep [] = [[]]"
| "split_on sep (c # cs) =
     (if c = sep then [] # split_on sep cs
      else (case split_on sep cs of [] \<Rightarrow> [[c]] | x # xs \<Rightarrow> (c # x) # xs))"

text \<open>\<^verbatim>\<open>str(n)\<close> for an integer.\<close>

fun digits :: "nat \<Rightarrow> string" where
  "digits n = (if n < 10 then [hex_digit n] else digits (n div 10) @ [hex_digit (n mod 10)])"

declare digits.simps [simp del]

definition str_int :: "int \<Rightarrow> string" where
  "str_int i = (if i < 0 then CHR ''-'' # digits (nat (- i)) else digits (nat i))"


definition path_root :: "string \<Rightarrow> string" where
  "path_root p =
     (let n = length (takeWhile (\<lambda>c. c = CHR ''/'') p)
      in if n = 0 then [] else if n = 2 then ''//'' else ''/'')"

definition path_parts :: "string \<Rightarrow> string list" where
  "path_parts p =
     filter (\<lambda>x. x \<noteq> [] \<and> x \<noteq> ''.'')
       (split_on (CHR ''/'') (dropWhile (\<lambda>c. c = CHR ''/'') p))"

definition as_posix :: "string \<Rightarrow> string" where
  "as_posix p =
     (let s = path_root p @ join_with ''/'' (path_parts p)
      in if s = [] then ''.'' else s)"

definition os_devnull :: string where
  "os_devnull = ''/dev/null''"

section \<open>The file system, external processes and the logger\<close>

text \<open>
  The state the module acts on: the files (path to content) and directories on disk, and
  a trace of every effect in the order it happens.  An external process started by
  \<^verbatim>\<open>os.system\<close> is a parameter: any function from the command line and the disk to an
  exit status and a new disk.  Failures of the operating system itself (a full disk,
  missing permissions) are outside the model.  The record \<^verbatim>\<open>LogInfo expression result\<close>
  stands for the message \<^verbatim>\<open>Writing "expression" to result\<close> sent to \<^verbatim>\<open>logger.info\<close>.
\<close>

record fsys =
  files :: "string \<rightharpoonup> string"
  dirs :: "string set"

datatype event =
    Exec string
  | Write string string
  | Mkdir string
  | Read string
  | LogInfo ustr string
  | LogError string

record world =
  fs :: fsys
  trace :: "event list"

type_synonym system = "string \<Rightarrow> fsys \<Rightarrow> int \<times> fsys"

definition path_exists :: "world \<Rightarrow> string \<Rightarrow> bool" where
  "path_exists w p = (files (fs w) p \<noteq> None \<or> p \<in> dirs (fs w))"

definition emit :: "event \<Rightarrow> world \<Rightarrow> world" where
  "emit e w = w\<lparr>trace := trace w @ [e]\<rparr>"



definition os_system :: "system \<Rightarrow> string \<Rightarrow> world \<Rightarrow> int \<times> world" where
  "os_system sys command w =
     (case sys command (fs w) of (status, fs') \<Rightarrow> (status, emit (Exec command) (w\<lparr>fs := fs'\<rparr>)))"

text \<open>
  \<^verbatim>\<open>open(log_file, "r")\<close> and \<^verbatim>\<open>f.readlines()\<close>.  The file is read as text: its bytes
  are decoded in the encoding of the locale, taken to be UTF-8, with the error handler
  \<^verbatim>\<open>strict\<close>, so that bytes that are not well-formed UTF-8 raise
  \<^verbatim>\<open>UnicodeDecodeError\<close>; a carriage return, alone or before a line feed, is read as a
  line feed; and the lines are returned each with its line feed.  A decoded text is
  kept as its UTF-8 bytes.
\<close>

definition follow :: "int \<Rightarrow> (int \<times> int) list option" where
  "follow a =
     (if a < 0x80 then Some []
      else if 0xC2 \<le> a \<and> a \<le> 0xDF then Some [(0x80, 0xBF)]
      else if a = 0xE0 then Some [(0xA0, 0xBF), (0x80, 0xBF)]
      else if a = 0xED then Some [(0x80, 0x9F), (0x80, 0xBF)]
      else if 0xE1 \<le> a \<and> a \<le> 0xEF then Some [(0x80, 0xBF), (0x80, 0xBF)]
      else if a = 0xF0 then Some [(0x90, 0xBF), (0x80, 0xBF), (0x80, 0xBF)]
      else if 0xF1 \<le> a \<and> a \<le> 0xF3 then Some [(0x80, 0xBF), (0x80, 0xBF), (0x80, 0xBF)]
      else if a = 0xF4 then Some [(0x80, 0x8F), (0x80, 0xBF), (0x80, 0xBF)]
      else None)"

fun matches :: "(int \<times> int) list \<Rightarrow> string \<Rightarrow> bool" where
  "matches [] cs = True"
| "matches (r # rs) [] = False"
| "matches (r # rs) (c # cs) = (fst r \<le> of_char c \<and> of_char c \<le> snd r \<and> matches rs cs)"

function valid_utf8 :: "string \<Rightarrow> bool" where
  "valid_utf8 [] = True"
| "valid_utf8 (a # cs) =
     (case follow (of_char a) of
        None \<Rightarrow> False
      | Some rs \<Rightarrow> matches rs cs \<and> valid_utf8 (drop (length rs) cs))"
  by pat_completeness auto

termination valid_utf8
  by (relation "measure length") auto

fun universal_newlines :: "string \<Rightarrow> string" where
  "universal_newlines [] = []"
| "universal_newlines [a] = (if a = CHR 0x0D then [CHR 0x0A] else [a])"
| "universal_newlines (a # b # cs) =
     (if a = CHR 0x0D then
        (if b = CHR 0x0A then CHR 0x0A # universal_newlines cs
         else CHR 0x0A # universal_newlines (b # cs))
      else a # universal_newlines (b # cs))"

fun readlines :: "string \<Rightarrow> string list" where
  "readlines [] = []"
| "readlines (c # cs) =
     (if c = CHR 0x0A then [c] # readlines cs
      else (case readlines cs of [] \<Rightarrow> [[c]] | l # ls \<Rightarrow> (c # l) # ls))"

definition read_log :: "string \<Rightarrow> world \<Rightarrow> (error + string list) \<times> world" where
  "read_log p w =
     (case files (fs w) p of
        None \<Rightarrow> (Inl (IsADirectoryError p), w)
      | Some content \<Rightarrow>
          if valid_utf8 content
          then (Inr (readlines (universal_newlines content)), emit (Read p) w)
          else (Inl UnicodeDecodeError, emit (Read p) w))"

section \<open>The template and the configuration\<close>

record tex_template =
  get_texcode_for_expression :: "ustr \<Rightarrow> ustr"
  get_texcode_for_expression_in_env :: "ustr \<Rightarrow> ustr \<Rightarrow> ustr"
  template_tex_compiler :: string
  template_output_format :: string

text \<open>
  The process-wide \<^verbatim>\<open>config\<close>: \<^verbatim>\<open>config.get_dir("tex_dir")\<close> and
  \<^verbatim>\<open>config["tex_template"]\<close>.
\<close>

record config =
  cfg_tex_dir :: string
  cfg_tex_template :: tex_template

section \<open>\<^verbatim>\<open>generate_tex_file\<close>\<close>


definition resolve_template :: "config \<Rightarrow> tex_template option \<Rightarrow> tex_template" where
  "resolve_template cfg t = (case t of None \<Rightarrow> cfg_tex_template cfg | Some tmpl \<Rightarrow> tmpl)"


section \<open>\<^verbatim>\<open>tex_compilation_command\<close>\<close>

text \<open>
  The list \<^verbatim>\<open>commands\<close> of the source, then the string it is joined into.
\<close>

definition tex_compilation_commands ::
  "string \<Rightarrow> string \<Rightarrow> string \<Rightarrow> string \<Rightarrow> error + string list" where
  "tex_compilation_commands tex_compiler output_format tex_file tex_dir =
     (if tex_compiler \<in> {''latex'', ''pdflatex'', ''luatex'', ''lualatex''} then
        Inr [tex_compiler,
             ''-interaction=batchmode'',
             ''-output-format='' @ dq @ drop 1 output_format @ dq,
             ''-halt-on-error'',
             ''-output-directory='' @ dq @ tex_dir @ dq,
             dq @ tex_file @ dq,
             ''>'',
             os_devnull]
      else if tex_compiler = ''xelatex'' then
        (case (if output_format = ''.xdv'' then Inr ''-no-pdf''
               else if output_format = ''.pdf'' then Inr []
               else Inl UnsupportedFormat) of
           Inl e \<Rightarrow> Inl e
         | Inr outflag \<Rightarrow>
             Inr [''xelatex'',
                  outflag,
                  ''-interaction=batchmode'',
                  ''-halt-on-error'',
                  ''-output-directory='' @ dq @ tex_dir @ dq,
                  dq @ tex_file @ dq,
                  ''>'',
                  os_devnull])
      else Inl (UnknownCompiler tex_compiler))"

definition tex_compilation_command ::
  "string \<Rightarrow> string \<Rightarrow> string \<Rightarrow> string \<Rightarrow> error + string" where
  "tex_compilation_command tex_compiler output_format tex_file tex_dir =
     (case tex_compilation_commands tex_compiler output_format tex_file tex_dir of
        Inl e \<Rightarrow> Inl e
      | Inr commands \<Rightarrow> Inr (join_with '' '' commands))"

section \<open>\<^verbatim>\<open>compile_tex\<close>\<close>

text \<open>
  The scan of the log after a failed compilation.  \<^verbatim>\<open>log_error_pos\<close> holds the indices
  of the lines that start with \<^verbatim>\<open>!\<close>.  For each of them the inner loop runs at most ten
  times, reading \<^verbatim>\<open>log[lineno + printed_lines]\<close>, which raises \<^verbatim>\<open>IndexError\<close> past the
  end of the list; the slice \<^verbatim>\<open>log[lineno : lineno + printed_lines + 1]\<close> is then sent to
  the logger line by line.
\<close>

definition log_error_pos :: "string list \<Rightarrow> nat list" where
  "log_error_pos log = filter (\<lambda>ind. prefix ''!'' (log ! ind)) [0..<length log]"

fun find_marker :: "string list \<Rightarrow> nat \<Rightarrow> nat \<Rightarrow> nat \<Rightarrow> error + nat" where
  "find_marker log lineno printed_lines 0 = Inr printed_lines"
| "find_marker log lineno printed_lines (Suc n) =
     (if length log \<le> lineno + printed_lines then Inl IndexError
      else if prefix ''l.'' (log ! (lineno + printed_lines)) then Inr printed_lines
      else find_marker log lineno (printed_lines + 1) n)"

definition excerpt :: "string list \<Rightarrow> nat \<Rightarrow> error + string list" where
  "excerpt log lineno =
     (case find_marker log lineno 1 10 of
        Inl e \<Rightarrow> Inl e
      | Inr printed_lines \<Rightarrow> Inr (take (printed_lines + 1) (drop lineno log)))"

fun report_errors :: "string list \<Rightarrow> nat list \<Rightarrow> world \<Rightarrow> (error + unit) \<times> world" where
  "report_errors log [] w = (Inr (), w)"
| "report_errors log (lineno # rest) w =
     (case excerpt log lineno of
        Inl e \<Rightarrow> (Inl e, w)
      | Inr ls \<Rightarrow> report_errors log rest (fold (\<lambda>line. emit (LogError line)) ls w))"

definition scan_log :: "string \<Rightarrow> string list \<Rightarrow> world \<Rightarrow> (error + unit) \<times> world" where
  "scan_log tex_compiler log w =
     (if log_error_pos log \<noteq> [] then
        report_errors log (log_error_pos log)
          (emit (LogError (''LaTeX compilation error! '' @ tex_compiler @ '' reports:'')) w)
      else (Inr (), w))"

text \<open>The paths \<^verbatim>\<open>compile_tex\<close> derives from the document path.\<close>

definition compile_result :: "string \<Rightarrow> string \<Rightarrow> string" where
  "compile_result tex_file output_format = as_posix (replace ''.tex'' output_format tex_file)"

definition log_file_of :: "string \<Rightarrow> string" where
  "log_file_of tex_file = replace ''.tex'' ''.log'' (as_posix tex_file)"

definition compile_tex ::
  "system \<Rightarrow> config \<Rightarrow> string \<Rightarrow> string \<Rightarrow> string \<Rightarrow> world \<Rightarrow> (error + string) \<times> world" where
  "compile_tex sys cfg tex_file tex_compiler output_format w =
     (let result = compile_result tex_file output_format;
          tex_file' = as_posix tex_file;
          tex_dir = as_posix (cfg_tex_dir cfg)
      in if \<not> path_exists w result then
           (case tex_compilation_command tex_compiler output_format tex_file' tex_dir of
              Inl e \<Rightarrow> (Inl e, w)
            | Inr command \<Rightarrow>
                (case os_system sys command w of
                   (exit_code, w1) \<Rightarrow>
                     if exit_code \<noteq> 0 then
                       (let log_file = log_file_of tex_file in
                        if \<not> path_exists w1 log_file
                        then (Inl (ToolchainMissing tex_compiler), w1)
                        else
                          (case read_log log_file w1 of
                             (Inl e, w2) \<Rightarrow> (Inl e, w2)
                           | (Inr log, w2) \<Rightarrow>
                               (case scan_log tex_compiler log w2 of
                                  (Inl e, w3) \<Rightarrow> (Inl e, w3)
                                | (Inr u, w3) \<Rightarrow>
                                    (Inl (CompilationError tex_compiler
                                            (drop 1 output_format) log_file), w3))))
                     else (Inr result, w1)))
         else (Inr result, w))"

section \<open>\<^verbatim>\<open>convert_to_svg\<close>\<close>

definition svg_result :: "string \<Rightarrow> string \<Rightarrow> string" where
  "svg_result dvi_file extension = as_posix (replace extension ''.svg'' dvi_file)"

definition dvisvgm_command :: "string \<Rightarrow> string \<Rightarrow> int \<Rightarrow> string" where
  "dvisvgm_command dvi_file extension page =
     join_with '' ''
       [''dvisvgm'',
        (if extension = ''.pdf'' then ''--pdf'' else []),
        ''-p '' @ str_int page,
        dq @ as_posix dvi_file @ dq,
        ''-n'',
        ''-v 0'',
        ''-o '' @ dq @ svg_result dvi_file extension @ dq,
        ''>'',
        os_devnull]"

definition convert_to_svg ::
  "system \<Rightarrow> string \<Rightarrow> string \<Rightarrow> int \<Rightarrow> world \<Rightarrow> (error + string) \<times> world" where
  "convert_to_svg sys dvi_file extension page w =
     (let result = svg_result dvi_file extension;
          w1 = (if \<not> path_exists w result
                then snd (os_system sys (dvisvgm_command dvi_file extension page) w)
                else w)
      in if \<not> path_exists w1 result
         then (Inl (ConversionUnsupported extension), w1)
         else (Inr result, w1))"

section \<open>\<^verbatim>\<open>tex_to_svg_file\<close>\<close>


section \<open>The artifact paths of the pipeline\<close>




section \<open>Example inputs\<close>

text \<open>
  A template, a configuration, two kinds of external process and some disks, on which
  the properties below are evaluated.
\<close>

definition backslash :: string where
  "backslash = [CHR 0x5C]"

definition nl :: string where
  "nl = [CHR 0x0A]"

definition example_template :: tex_template where
  "example_template =
     \<lparr>get_texcode_for_expression =
        (\<lambda>expression.
           ascii (backslash @ ''begin{document}'') @ expression @
           ascii (backslash @ ''end{document}'')),
      get_texcode_for_expression_in_env =
        (\<lambda>expression environment.
           ascii (backslash @ ''begin{document}'' @ backslash @ ''begin{'') @ environment @
           ascii ''}'' @ expression @ ascii (backslash @ ''end{'') @ environment @
           ascii (''}'' @ backslash @ ''end{document}'')),
      template_tex_compiler = ''latex'',
      template_output_format = ''.dvi''\<rparr>"

definition example_config :: config where
  "example_config = \<lparr>cfg_tex_dir = ''media/Tex'', cfg_tex_template = example_template\<rparr>"

text \<open>A process that leaves the disk as it is and exits with the given status.\<close>

definition exit_with :: "int \<Rightarrow> system" where
  "exit_with status command disk = (status, disk)"

text \<open>
  A toolchain for the example document: the compiler writes the \<^verbatim>\<open>.dvi\<close> file, the
  converter the \<^verbatim>\<open>.svg\<close> file, and both exit with the given status.
\<close>

definition writing_tools :: "int \<Rightarrow> system" where
  "writing_tools status command disk =
     (if prefix ''latex '' command
      then (status, disk\<lparr>files := (files disk)(''media/Tex/2fb18596ac456aff.dvi'' \<mapsto> ''dvi'')\<rparr>)
      else if prefix ''dvisvgm '' command
      then (status, disk\<lparr>files := (files disk)(''media/Tex/2fb18596ac456aff.svg'' \<mapsto> ''svg'')\<rparr>)
      else (status, disk))"

definition disk_of :: "(string \<times> string) list \<Rightarrow> string list \<Rightarrow> fsys" where
  "disk_of fl ds = \<lparr>files = map_of fl, dirs = set ds\<rparr>"

definition world_of :: "(string \<times> string) list \<Rightarrow> string list \<Rightarrow> world" where
  "world_of fl ds = \<lparr>fs = disk_of fl ds, trace = []\<rparr>"





text \<open>A log that ends soon after its error line, as after an emergency stop.\<close>

definition stopped_log :: string where
  "stopped_log = ''! Emergency stop.'' @ nl @ ''No pages of output.'' @ nl"

section \<open>Properties of the content hash\<close>

lemma length_sha256: "length (sha256 m) = 32"
  by (simp add: sha256_def Let_def word_bytes_def split: prod.splits)

lemma length_concat_hex_byte: "length (concat (map hex_byte bs)) = 2 * length bs"
  by (induction bs) (simp_all add: hex_byte_def)

lemma length_hexdigest: "length (hexdigest m) = 64"
  by (simp add: hexdigest_def length_concat_hex_byte length_sha256)

lemma hex_digit_lower: "hex_digit n \<in> set ''0123456789abcdef''"
  unfolding hex_digit_def by (rule nth_mem) simp

lemma set_concat_map_subset:
  "(\<And>b. set (f b) \<subseteq> S) \<Longrightarrow> set (concat (map f bs)) \<subseteq> S"
  by (induction bs) auto

lemma set_hex_byte: "set (hex_byte b) \<subseteq> set ''0123456789abcdef''"
proof -
  have "set [x, y] \<subseteq> S" if "x \<in> S" "y \<in> S" for x y :: char and S
    using that by simp
  from this [OF hex_digit_lower hex_digit_lower] show ?thesis
    unfolding hex_byte_def .
qed

lemma set_hexdigest: "set (hexdigest m) \<subseteq> set ''0123456789abcdef''"
  unfolding hexdigest_def by (rule set_concat_map_subset) (rule set_hex_byte)

lemma length_take_hexdigest: "length (take 16 (hexdigest m)) = 16"
  by (simp add: length_hexdigest)

lemma set_take_hexdigest: "set (take 16 (hexdigest m)) \<subseteq> set ''0123456789abcdef''"
  by (rule subset_trans [OF set_take_subset set_hexdigest])

lemma utf8_surrogate: "surrogate c \<Longrightarrow> utf8 c = Inl UnicodeEncodeError"
  by (simp add: utf8_def surrogate_def)

lemma utf8_no_surrogate: "\<not> surrogate c \<Longrightarrow> \<exists>bs. utf8 c = Inr bs"
  by (simp add: utf8_def)

lemma utf8_error: "utf8 c = Inl e \<Longrightarrow> e = UnicodeEncodeError"
  by (simp add: utf8_def split: if_splits)

lemma encode_no_surrogate:
  "list_all (\<lambda>c. \<not> surrogate c) t \<Longrightarrow> \<exists>id_bytes. encode t = Inr id_bytes"
proof (induction t)
  case Nil
  then show ?case by simp
next
  case (Cons c t)
  then obtain bs rest where "utf8 c = Inr bs" "encode t = Inr rest"
    using utf8_no_surrogate [of c] by auto
  then show ?case by simp
qed

lemma encode_error: "encode t = Inl e \<Longrightarrow> e = UnicodeEncodeError"
  by (induction t arbitrary: e) (auto split: sum.splits dest: utf8_error)

lemma encode_surrogate:
  "\<not> list_all (\<lambda>c. \<not> surrogate c) t \<Longrightarrow> encode t = Inl UnicodeEncodeError"
proof (induction t)
  case Nil
  then show ?case by simp
next
  case (Cons c t)
  show ?case
  proof (cases "surrogate c")
    case True
    then show ?thesis by (simp add: utf8_surrogate)
  next
    case False
    with Cons have "encode t = Inl UnicodeEncodeError" by simp
    then show ?thesis by (simp split: sum.splits add: utf8_error)
  qed
qed

lemma tex_hash_Inr:
  "tex_hash t = Inr h \<Longrightarrow> \<exists>id_bytes. encode t = Inr id_bytes \<and> h = take 16 (hexdigest id_bytes)"
  by (auto simp: tex_hash_def split: sum.splits)

lemma tex_hash_Inl: "tex_hash t = Inl e \<Longrightarrow> encode t = Inl e"
  by (auto simp: tex_hash_def split: sum.splits)


lemma length_tex_hash: "tex_hash t = Inr h \<Longrightarrow> length h = 16"
  by (auto dest!: tex_hash_Inr simp: length_hexdigest)

text \<open>
  Claim C2, as it holds of the code.  \<^const>\<open>tex_hash\<close> takes the text and nothing else, so
  its result is the same on every call, and two texts with the same encoding have the
  same result.  On a text that holds no surrogate code point the result is the first 16
  of the 64 characters of the hexadecimal SHA-256 digest of the UTF-8 encoding of the
  text, each of them one of \<^verbatim>\<open>0123456789abcdef\<close>.  On a text that holds a surrogate code
  point the call fails with \<^verbatim>\<open>UnicodeEncodeError\<close>.  The encoding and the digest are
  those of Python: the last five conjuncts are values of \<^verbatim>\<open>str.encode\<close> and
  \<^verbatim>\<open>hashlib.sha256\<close>, among them two test vectors of FIPS 180-4.
\<close>

theorem tex_hash_format:
  "(list_all (\<lambda>c. \<not> surrogate c) t \<longrightarrow>
      (\<exists>id_bytes h.
         encode t = Inr id_bytes \<and> tex_hash t = Inr h \<and>
         h = take 16 (hexdigest id_bytes) \<and> length (hexdigest id_bytes) = 64 \<and>
         length h = 16 \<and> set h \<subseteq> set ''0123456789abcdef'')) \<and>
   (\<not> list_all (\<lambda>c. \<not> surrogate c) t \<longrightarrow> tex_hash t = Inl UnicodeEncodeError) \<and>
   (encode s = encode t \<longrightarrow> tex_hash s = tex_hash t) \<and>
   encode [0x78, 0xE9, 0x20AC, 0x1F600] =
     Inr [0x78, 0xC3, 0xA9, 0xE2, 0x82, 0xAC, 0xF0, 0x9F, 0x98, 0x80] \<and>
   hexdigest [0x61, 0x62, 0x63] =
     ''ba7816bf8f01cfea414140de5dae2223b00361a396177a9cb410ff61f20015ad'' \<and>
   tex_hash [] = Inr ''e3b0c44298fc1c14'' \<and>
   tex_hash (ascii ''abcdbcdecdefdefgefghfghighijhijkijkljklmklmnlmnomnopnopq'') =
     Inr ''248d6a61d20638b8'' \<and>
   tex_hash [0x78, 0xE9, 0x20AC, 0x1F600] = Inr ''ceebf20819699c36''"
proof (intro conjI impI)
  assume "list_all (\<lambda>c. \<not> surrogate c) t"
  then obtain id_bytes where e: "encode t = Inr id_bytes"
    using encode_no_surrogate by blast
  then have "tex_hash t = Inr (take 16 (hexdigest id_bytes))"
    by (simp add: tex_hash_def)
  with e show "\<exists>id_bytes h.
         encode t = Inr id_bytes \<and> tex_hash t = Inr h \<and>
         h = take 16 (hexdigest id_bytes) \<and> length (hexdigest id_bytes) = 64 \<and>
         length h = 16 \<and> set h \<subseteq> set ''0123456789abcdef''"
    using length_hexdigest length_take_hexdigest set_take_hexdigest by blast
next
  assume "\<not> list_all (\<lambda>c. \<not> surrogate c) t"
  then show "tex_hash t = Inl UnicodeEncodeError"
    by (simp add: tex_hash_def encode_surrogate)
next
  assume "encode s = encode t"
  then show "tex_hash s = tex_hash t"
    by (simp add: tex_hash_def)
next
  show "encode [0x78, 0xE9, 0x20AC, 0x1F600] =
     Inr [0x78, 0xC3, 0xA9, 0xE2, 0x82, 0xAC, 0xF0, 0x9F, 0x98, 0x80]"
    by code_simp
next
  show "hexdigest [0x61, 0x62, 0x63] =
     ''ba7816bf8f01cfea414140de5dae2223b00361a396177a9cb410ff61f20015ad''"
    by code_simp
next
  show "tex_hash [] = Inr ''e3b0c44298fc1c14''"
    by code_simp
next
  show "tex_hash (ascii ''abcdbcdecdefdefgefghfghighijhijkijkljklmklmnlmnomnopnopq'') =
     Inr ''248d6a61d20638b8''"
    by code_simp
next
  show "tex_hash [0x78, 0xE9, 0x20AC, 0x1F600] = Inr ''ceebf20819699c36''"
    by code_simp
qed

text \<open>
  The one-character text \<^verbatim>\<open>x\<close>, and the text of the letter \<^verbatim>\<open>a\<close> followed by the
  surrogate \<^verbatim>\<open>U+DC80\<close>.
\<close>

theorem tex_hash_format_example:
  "list_all (\<lambda>c. \<not> surrogate c) (ascii ''x'') \<and>
   tex_hash (ascii ''x'') = Inr ''2d711642b726b044'' \<and>
   \<not> list_all (\<lambda>c. \<not> surrogate c) [0x61, 0xDC80] \<and>
   tex_hash [0x61, 0xDC80] = Inl UnicodeEncodeError"
proof -
  have 1: "list_all (\<lambda>c. \<not> surrogate c) (ascii ''x'')"
    by (simp add: ascii_def surrogate_def)
  have 2: "\<not> list_all (\<lambda>c. \<not> surrogate c) [0x61, 0xDC80]"
    by (simp add: surrogate_def)
  have 3: "tex_hash (ascii ''x'') = Inr ''2d711642b726b044''"
    by code_simp
  from tex_hash_format [of "[0x61, 0xDC80]"] 2
  have 4: "tex_hash [0x61, 0xDC80] = Inl UnicodeEncodeError"
    by blast
  from tex_hash_format [of "ascii ''x''"] 1
  have "\<exists>h. tex_hash (ascii ''x'') = Inr h \<and> length h = 16" by blast
  with 1 2 3 4 show ?thesis by simp
qed

text \<open>
  The claim as the specification words it, with no failure for any text, does not hold:
  the one-character text of the surrogate \<^verbatim>\<open>U+D800\<close> is a \<^verbatim>\<open>str\<close>, and its hash is an
  exception.
\<close>

theorem tex_hash_surrogate:
  "is_str [0xD800] \<and> tex_hash [0xD800] = Inl UnicodeEncodeError"
  by (simp add: is_str_def tex_hash_def utf8_def surrogate_def)

section \<open>Properties of the command construction\<close>

lemma sublistI: "ys = ps @ xs @ ss \<Longrightarrow> sublist xs ys"
  by (auto simp: sublist_def)

lemma suffixI': "ys = ps @ xs \<Longrightarrow> suffix xs ys"
  by (auto simp: suffix_def)

lemma latex_family_commands:
  assumes "tex_compiler \<in> {''latex'', ''pdflatex'', ''luatex'', ''lualatex''}"
  shows "tex_compilation_command tex_compiler output_format tex_file tex_dir =
     Inr (tex_compiler @ '' -interaction=batchmode -output-format='' @ dq @ drop 1 output_format @ dq @
          '' -halt-on-error -output-directory='' @ dq @ tex_dir @ dq @ '' '' @ dq @ tex_file @ dq @
          '' > /dev/null'')"
  using assms
  by (simp add: tex_compilation_command_def tex_compilation_commands_def os_devnull_def)

text \<open>
  Claim C9.  For each of the compilers \<^verbatim>\<open>latex\<close>, \<^verbatim>\<open>pdflatex\<close>, \<^verbatim>\<open>luatex\<close> and
  \<^verbatim>\<open>lualatex\<close>, and an output format written with its leading dot, the command string
  contains the batch-mode flag, the halt-on-error flag, the output-format flag with the
  format without the dot, the output-directory flag with the working directory, and ends
  with the redirection of standard output to \<^verbatim>\<open>/dev/null\<close>.
\<close>

theorem latex_family_command:
  assumes "tex_compiler \<in> {''latex'', ''pdflatex'', ''luatex'', ''lualatex''}"
  shows "\<exists>command.
     tex_compilation_command tex_compiler (CHR ''.'' # fmt) tex_file tex_dir = Inr command \<and>
     sublist ''-interaction=batchmode'' command \<and>
     sublist ''-halt-on-error'' command \<and>
     sublist (''-output-format='' @ dq @ fmt @ dq) command \<and>
     sublist (''-output-directory='' @ dq @ tex_dir @ dq) command \<and>
     suffix ''> /dev/null'' command"
proof -
  let ?c = "tex_compiler @ '' -interaction=batchmode -output-format='' @ dq @ fmt @ dq @
          '' -halt-on-error -output-directory='' @ dq @ tex_dir @ dq @ '' '' @ dq @ tex_file @ dq @
          '' > /dev/null''"
  have c: "tex_compilation_command tex_compiler (CHR ''.'' # fmt) tex_file tex_dir = Inr ?c"
    using latex_family_commands [OF assms, of "CHR ''.'' # fmt" tex_file tex_dir] by simp
  have 1: "sublist ''-interaction=batchmode'' ?c"
    by (rule sublistI [where ps = "tex_compiler @ '' ''"
          and ss = "'' -output-format='' @ dq @ fmt @ dq @
          '' -halt-on-error -output-directory='' @ dq @ tex_dir @ dq @ '' '' @ dq @ tex_file @ dq @
          '' > /dev/null''"]) simp
  have 2: "sublist ''-halt-on-error'' ?c"
    by (rule sublistI [where ps = "tex_compiler @ '' -interaction=batchmode -output-format='' @ dq @ fmt @ dq @ '' ''"
          and ss = "'' -output-directory='' @ dq @ tex_dir @ dq @ '' '' @ dq @ tex_file @ dq @
          '' > /dev/null''"]) simp
  have 3: "sublist (''-output-format='' @ dq @ fmt @ dq) ?c"
    by (rule sublistI [where ps = "tex_compiler @ '' -interaction=batchmode ''"
          and ss = "'' -halt-on-error -output-directory='' @ dq @ tex_dir @ dq @ '' '' @ dq @ tex_file @ dq @
          '' > /dev/null''"]) simp
  have 4: "sublist (''-output-directory='' @ dq @ tex_dir @ dq) ?c"
    by (rule sublistI [where ps = "tex_compiler @ '' -interaction=batchmode -output-format='' @ dq @ fmt @ dq @
          '' -halt-on-error ''"
          and ss = "'' '' @ dq @ tex_file @ dq @ '' > /dev/null''"]) simp
  have 5: "suffix ''> /dev/null'' ?c"
    by (rule suffixI' [where ps = "tex_compiler @ '' -interaction=batchmode -output-format='' @ dq @ fmt @ dq @
          '' -halt-on-error -output-directory='' @ dq @ tex_dir @ dq @ '' '' @ dq @ tex_file @ dq @
          '' ''"]) simp
  from c 1 2 3 4 5 show ?thesis by blast
qed

theorem latex_family_command_example:
  "''pdflatex'' \<in> {''latex'', ''pdflatex'', ''luatex'', ''lualatex''} \<and>
   tex_compilation_command ''pdflatex'' ''.pdf'' ''media/Tex/2d711642b726b044.tex'' ''media/Tex'' =
     Inr (''pdflatex -interaction=batchmode -output-format='' @ dq @ ''pdf'' @ dq @
          '' -halt-on-error -output-directory='' @ dq @ ''media/Tex'' @ dq @ '' '' @ dq @
          ''media/Tex/2d711642b726b044.tex'' @ dq @ '' > /dev/null'') \<and>
   sublist (''-output-format='' @ dq @ ''pdf'' @ dq)
     (''pdflatex -interaction=batchmode -output-format='' @ dq @ ''pdf'' @ dq @
          '' -halt-on-error -output-directory='' @ dq @ ''media/Tex'' @ dq @ '' '' @ dq @
          ''media/Tex/2d711642b726b044.tex'' @ dq @ '' > /dev/null'')"
proof -
  have m: "''pdflatex'' \<in> {''latex'', ''pdflatex'', ''luatex'', ''lualatex''}" by simp
  have e: "tex_compilation_command ''pdflatex'' ''.pdf'' ''media/Tex/2d711642b726b044.tex'' ''media/Tex'' =
     Inr (''pdflatex -interaction=batchmode -output-format='' @ dq @ ''pdf'' @ dq @
          '' -halt-on-error -output-directory='' @ dq @ ''media/Tex'' @ dq @ '' '' @ dq @
          ''media/Tex/2d711642b726b044.tex'' @ dq @ '' > /dev/null'')"
    by (simp add: tex_compilation_command_def tex_compilation_commands_def os_devnull_def)
  from latex_family_command [OF m, of "''pdf''" "''media/Tex/2d711642b726b044.tex''" "''media/Tex''"]
  show ?thesis using m e by auto
qed

text \<open>
  Claim C3.  For \<^verbatim>\<open>xelatex\<close> the list of command-line words holds \<^verbatim>\<open>-no-pdf\<close> when the
  format is \<^verbatim>\<open>.xdv\<close> and does not hold it when the format is \<^verbatim>\<open>.pdf\<close> (the flag's place
  is then the empty word); any other format is refused with \<^const>\<open>UnsupportedFormat\<close>.  A
  compiler name outside the five recognised ones is refused with \<^const>\<open>UnknownCompiler\<close>.
  The absence of the flag is stated on the words, since the quoted paths of the command
  are arbitrary text.
\<close>

theorem xelatex_and_unknown_compiler:
  "(\<exists>commands.
      tex_compilation_commands ''xelatex'' ''.xdv'' tex_file tex_dir = Inr commands \<and>
      tex_compilation_command ''xelatex'' ''.xdv'' tex_file tex_dir = Inr (join_with '' '' commands) \<and>
      ''-no-pdf'' \<in> set commands \<and> sublist ''-no-pdf'' (join_with '' '' commands)) \<and>
   (\<exists>commands.
      tex_compilation_commands ''xelatex'' ''.pdf'' tex_file tex_dir = Inr commands \<and>
      tex_compilation_command ''xelatex'' ''.pdf'' tex_file tex_dir = Inr (join_with '' '' commands) \<and>
      ''-no-pdf'' \<notin> set commands) \<and>
   (output_format \<noteq> ''.xdv'' \<and> output_format \<noteq> ''.pdf'' \<longrightarrow>
      tex_compilation_command ''xelatex'' output_format tex_file tex_dir = Inl UnsupportedFormat) \<and>
   (tex_compiler \<notin> {''latex'', ''pdflatex'', ''luatex'', ''lualatex'', ''xelatex''} \<longrightarrow>
      tex_compilation_command tex_compiler output_format tex_file tex_dir =
        Inl (UnknownCompiler tex_compiler))"
proof (intro conjI)
  show "\<exists>commands.
      tex_compilation_commands ''xelatex'' ''.xdv'' tex_file tex_dir = Inr commands \<and>
      tex_compilation_command ''xelatex'' ''.xdv'' tex_file tex_dir = Inr (join_with '' '' commands) \<and>
      ''-no-pdf'' \<in> set commands \<and> sublist ''-no-pdf'' (join_with '' '' commands)"
  proof -
    have "sublist ''-no-pdf'' (''xelatex -no-pdf -interaction=batchmode -halt-on-error -output-directory='' @ dq @ tex_dir @ dq @ '' '' @ dq @ tex_file @ dq @ '' > /dev/null'')"
      by (rule sublistI [where ps = "''xelatex ''" and ss = "'' -interaction=batchmode -halt-on-error -output-directory='' @ dq @ tex_dir @ dq @ '' '' @ dq @ tex_file @ dq @ '' > /dev/null''"]) simp
    then show ?thesis
      by (simp add: tex_compilation_command_def tex_compilation_commands_def os_devnull_def)
  qed
  show "\<exists>commands.
      tex_compilation_commands ''xelatex'' ''.pdf'' tex_file tex_dir = Inr commands \<and>
      tex_compilation_command ''xelatex'' ''.pdf'' tex_file tex_dir = Inr (join_with '' '' commands) \<and>
      ''-no-pdf'' \<notin> set commands"
    by (simp add: tex_compilation_command_def tex_compilation_commands_def os_devnull_def dq_def)
  show "output_format \<noteq> ''.xdv'' \<and> output_format \<noteq> ''.pdf'' \<longrightarrow>
      tex_compilation_command ''xelatex'' output_format tex_file tex_dir = Inl UnsupportedFormat"
    by (simp add: tex_compilation_command_def tex_compilation_commands_def)
  show "tex_compiler \<notin> {''latex'', ''pdflatex'', ''luatex'', ''lualatex'', ''xelatex''} \<longrightarrow>
      tex_compilation_command tex_compiler output_format tex_file tex_dir =
        Inl (UnknownCompiler tex_compiler)"
    by (simp add: tex_compilation_command_def tex_compilation_commands_def)
qed

theorem xelatex_and_unknown_compiler_example:
  "tex_compilation_command ''xelatex'' ''.xdv'' ''media/Tex/2d711642b726b044.tex'' ''media/Tex'' =
     Inr (''xelatex -no-pdf -interaction=batchmode -halt-on-error -output-directory='' @ dq @
          ''media/Tex'' @ dq @ '' '' @ dq @ ''media/Tex/2d711642b726b044.tex'' @ dq @ '' > /dev/null'') \<and>
   tex_compilation_command ''xelatex'' ''.pdf'' ''media/Tex/2d711642b726b044.tex'' ''media/Tex'' =
     Inr (''xelatex  -interaction=batchmode -halt-on-error -output-directory='' @ dq @
          ''media/Tex'' @ dq @ '' '' @ dq @ ''media/Tex/2d711642b726b044.tex'' @ dq @ '' > /dev/null'') \<and>
   ''.dvi'' \<noteq> ''.xdv'' \<and> ''.dvi'' \<noteq> ''.pdf'' \<and>
   tex_compilation_command ''xelatex'' ''.dvi'' ''media/Tex/2d711642b726b044.tex'' ''media/Tex'' =
     Inl UnsupportedFormat \<and>
   ''not-a-compiler'' \<notin> {''latex'', ''pdflatex'', ''luatex'', ''lualatex'', ''xelatex''} \<and>
   tex_compilation_command ''not-a-compiler'' ''.dvi'' ''media/Tex/2d711642b726b044.tex'' ''media/Tex'' =
     Inl (UnknownCompiler ''not-a-compiler'')"
  using xelatex_and_unknown_compiler [of "''media/Tex/2d711642b726b044.tex''" "''media/Tex''"
      "''.dvi''" "''not-a-compiler''"]
  by (simp add: tex_compilation_command_def tex_compilation_commands_def os_devnull_def)

section \<open>Evaluation of the example inputs\<close>


lemma example_paths:
  "as_posix ''media/Tex'' = ''media/Tex''"
  "as_posix ''media/Tex/2fb18596ac456aff.tex'' = ''media/Tex/2fb18596ac456aff.tex''"
  "compile_result ''media/Tex/2fb18596ac456aff.tex'' ''.dvi'' = ''media/Tex/2fb18596ac456aff.dvi''"
  "log_file_of ''media/Tex/2fb18596ac456aff.tex'' = ''media/Tex/2fb18596ac456aff.log''"
  "svg_result ''media/Tex/2fb18596ac456aff.dvi'' ''.dvi'' = ''media/Tex/2fb18596ac456aff.svg''"
  "as_posix ''media/Tex/2fb18596ac456aff.dvi'' = ''media/Tex/2fb18596ac456aff.dvi''"
  by code_simp+



lemma example_unknown_compiler:
  "tex_compilation_command ''not-a-compiler'' ''.dvi'' tex_file tex_dir =
     Inl (UnknownCompiler ''not-a-compiler'')"
  by (simp add: tex_compilation_command_def tex_compilation_commands_def)

lemma path_exists_world_of:
  "path_exists (world_of fl ds) p = (map_of fl p \<noteq> None \<or> p \<in> set ds)"
  by (simp add: path_exists_def world_of_def disk_of_def)

lemma path_exists_emit: "path_exists (emit e w) p = path_exists w p"
  by (simp add: path_exists_def emit_def)


lemma os_system_exit_with: "os_system (exit_with s) command w = (s, emit (Exec command) w)"
  by (simp add: os_system_def exit_with_def)

lemma trace_emit: "trace (emit e w) = trace w @ [e]"
  by (simp add: emit_def)

lemma trace_world_of: "trace (world_of fl ds) = []"
  by (simp add: world_of_def)

lemmas world_simps =
  path_exists_world_of path_exists_emit os_system_exit_with trace_emit trace_world_of

lemma dvisvgm_command_prefix:
  "prefix ''dvisvgm '' (dvisvgm_command dvi_file extension page)"
  "\<not> prefix ''latex '' (dvisvgm_command dvi_file extension page)"
  by (simp_all add: dvisvgm_command_def)

lemma path_exists_after_dvisvgm:
  "path_exists (snd (os_system (writing_tools s) (dvisvgm_command dvi_file extension page) w)) p =
     (p = ''media/Tex/2fb18596ac456aff.svg'' \<or> path_exists w p)"
  by (simp add: os_system_def writing_tools_def dvisvgm_command_prefix path_exists_def emit_def)

lemma path_exists_after_exit_with:
  "path_exists (snd (os_system (exit_with s) command w)) p = path_exists w p"
  by (simp add: os_system_exit_with path_exists_emit)

section \<open>Properties of \<^verbatim>\<open>generate_tex_file\<close>\<close>









section \<open>Properties of the derived paths\<close>



text \<open>
  Claim C8.  The expected output of the compiler stage is the document path with its
  \<^verbatim>\<open>.tex\<close> extension, and only the extension, replaced by the output format, and the
  expected picture is the input path with its trailing extension replaced by
  \<^verbatim>\<open>.svg\<close>.  The source derives both with \<^verbatim>\<open>str.replace\<close>, which replaces every
  occurrence: for a document in a directory whose name holds \<^verbatim>\<open>.tex\<close> the directory
  part of the expected output, of the log path and of the expected picture changes too.
\<close>

theorem replace_changes_directory:
  "compile_result ''my.texs/a.tex'' ''.dvi'' = ''my.dvis/a.dvi'' \<and>
   log_file_of ''my.texs/a.tex'' = ''my.logs/a.log'' \<and>
   svg_result ''my.dvis/a.dvi'' ''.dvi'' = ''my.svgs/a.svg''"
  by (intro conjI; code_simp)

section \<open>Properties of \<^verbatim>\<open>compile_tex\<close>\<close>

lemma compile_tex_hit:
  "path_exists w (compile_result tex_file output_format) \<Longrightarrow>
   compile_tex sys cfg tex_file tex_compiler output_format w =
     (Inr (compile_result tex_file output_format), w)"
  by (simp add: compile_tex_def Let_def)


text \<open>
  Claim C10.  When the expected output of a document is on disk, \<^verbatim>\<open>compile_tex\<close> returns
  its path and leaves the world as it is, whatever the compiler name and the output
  format are; so a result \<^const>\<open>UnsupportedFormat\<close> or \<^const>\<open>UnknownCompiler\<close> is only
  possible when the expected output is missing.
\<close>

theorem compile_tex_cache_hit:
  "(path_exists w (compile_result tex_file output_format) \<longrightarrow>
      compile_tex sys cfg tex_file tex_compiler output_format w =
        (Inr (compile_result tex_file output_format), w)) \<and>
   (fst (compile_tex sys cfg tex_file tex_compiler output_format w) = Inl UnsupportedFormat \<or>
    fst (compile_tex sys cfg tex_file tex_compiler output_format w) =
      Inl (UnknownCompiler name) \<longrightarrow>
      \<not> path_exists w (compile_result tex_file output_format))"
  using compile_tex_hit [of w tex_file output_format sys cfg tex_compiler] by auto

text \<open>
  The compiler name \<^verbatim>\<open>not-a-compiler\<close>: accepted when the \<^verbatim>\<open>.dvi\<close> file is on disk,
  refused when it is not.
\<close>

theorem compile_tex_cache_hit_example:
  "path_exists (world_of [(''media/Tex/2fb18596ac456aff.dvi'', ''dvi'')] [''media/Tex''])
       (compile_result ''media/Tex/2fb18596ac456aff.tex'' ''.dvi'') \<and>
   compile_tex (exit_with 1) example_config ''media/Tex/2fb18596ac456aff.tex''
       ''not-a-compiler'' ''.dvi''
       (world_of [(''media/Tex/2fb18596ac456aff.dvi'', ''dvi'')] [''media/Tex'']) =
     (Inr ''media/Tex/2fb18596ac456aff.dvi'',
      world_of [(''media/Tex/2fb18596ac456aff.dvi'', ''dvi'')] [''media/Tex'']) \<and>
   compile_tex (exit_with 1) example_config ''media/Tex/2fb18596ac456aff.tex''
       ''not-a-compiler'' ''.dvi'' (world_of [] [''media/Tex'']) =
     (Inl (UnknownCompiler ''not-a-compiler''), world_of [] [''media/Tex''])"
proof -
  let ?w = "world_of [(''media/Tex/2fb18596ac456aff.dvi'', ''dvi'')] [''media/Tex'']"
  have 1: "path_exists ?w (compile_result ''media/Tex/2fb18596ac456aff.tex'' ''.dvi'')"
    by (simp add: example_paths world_simps)
  have m: "\<not> path_exists (world_of [] [''media/Tex''])
      (compile_result ''media/Tex/2fb18596ac456aff.tex'' ''.dvi'')"
    by (simp add: example_paths world_simps)
  have 2: "compile_tex (exit_with 1) example_config ''media/Tex/2fb18596ac456aff.tex''
       ''not-a-compiler'' ''.dvi'' (world_of [] [''media/Tex'']) =
     (Inl (UnknownCompiler ''not-a-compiler''), world_of [] [''media/Tex''])"
    using m by (simp add: compile_tex_def Let_def example_unknown_compiler)
  from compile_tex_cache_hit [of ?w "''media/Tex/2fb18596ac456aff.tex''" "''.dvi''"
      "exit_with 1" example_config "''not-a-compiler''" undefined] 1
  have 3: "compile_tex (exit_with 1) example_config ''media/Tex/2fb18596ac456aff.tex''
       ''not-a-compiler'' ''.dvi'' ?w =
       (Inr (compile_result ''media/Tex/2fb18596ac456aff.tex'' ''.dvi''), ?w)"
    by blast
  from 1 2 3 show ?thesis
    by (simp only: example_paths simp_thms)
qed




subsection \<open>The excerpt of the log\<close>

text \<open>
  The three outcomes of the search for the line that starts with \<^verbatim>\<open>l.\<close>: it is found
  among the ten lines after the error line; the log ends before the search does; or
  ten lines are read and none of them starts with \<^verbatim>\<open>l.\<close>.
\<close>

lemma find_marker_found:
  "p \<le> k \<Longrightarrow> k < p + fuel \<Longrightarrow> lineno + k < length log \<Longrightarrow>
   prefix ''l.'' (log ! (lineno + k)) \<Longrightarrow>
   (\<And>j. p \<le> j \<Longrightarrow> j < k \<Longrightarrow> \<not> prefix ''l.'' (log ! (lineno + j))) \<Longrightarrow>
   find_marker log lineno p fuel = Inr k"
proof (induction fuel arbitrary: p)
  case 0
  then show ?case by simp
next
  case (Suc fuel)
  show ?case
  proof (cases "p = k")
    case True
    with Suc.prems show ?thesis by simp
  next
    case False
    with Suc.prems have lt: "p < k" by simp
    with Suc.prems have "\<not> prefix ''l.'' (log ! (lineno + p))" by simp
    moreover from lt Suc.prems have "lineno + p < length log" by simp
    moreover have "find_marker log lineno (p + 1) fuel = Inr k"
      using Suc.prems lt by (intro Suc.IH) simp_all
    ultimately show ?thesis by simp
  qed
qed

lemma find_marker_overrun:
  "length log < lineno + p + fuel \<Longrightarrow> 0 < fuel \<Longrightarrow>
   (\<And>j. p \<le> j \<Longrightarrow> lineno + j < length log \<Longrightarrow> \<not> prefix ''l.'' (log ! (lineno + j))) \<Longrightarrow>
   find_marker log lineno p fuel = Inl IndexError"
proof (induction fuel arbitrary: p)
  case 0
  then show ?case by simp
next
  case (Suc fuel)
  show ?case
  proof (cases "length log \<le> lineno + p")
    case True
    then show ?thesis by simp
  next
    case False
    then have r: "lineno + p < length log" by simp
    with Suc.prems have n: "\<not> prefix ''l.'' (log ! (lineno + p))" by simp
    from r Suc.prems(1) have f: "0 < fuel" by simp
    have "find_marker log lineno (p + 1) fuel = Inl IndexError"
      using Suc.prems f by (intro Suc.IH) simp_all
    with r n show ?thesis by simp
  qed
qed

lemma find_marker_exhausted:
  "lineno + p + fuel \<le> length log \<Longrightarrow>
   (\<And>j. p \<le> j \<Longrightarrow> j < p + fuel \<Longrightarrow> \<not> prefix ''l.'' (log ! (lineno + j))) \<Longrightarrow>
   find_marker log lineno p fuel = Inr (p + fuel)"
proof (induction fuel arbitrary: p)
  case 0
  then show ?case by simp
next
  case (Suc fuel)
  from Suc.prems have r: "lineno + p < length log" by simp
  from Suc.prems have n: "\<not> prefix ''l.'' (log ! (lineno + p))" by simp
  have "find_marker log lineno (p + 1) fuel = Inr (p + 1 + fuel)"
    using Suc.prems by (intro Suc.IH) simp_all
  with r n show ?case by simp
qed

lemma excerpt_through_marker:
  assumes "1 \<le> k" "k \<le> 10" "lineno + k < length log" "prefix ''l.'' (log ! (lineno + k))"
    and "\<And>j. 1 \<le> j \<Longrightarrow> j < k \<Longrightarrow> \<not> prefix ''l.'' (log ! (lineno + j))"
  shows "excerpt log lineno = Inr (take (k + 1) (drop lineno log))"
proof -
  have "find_marker log lineno 1 10 = Inr k"
    using assms by (intro find_marker_found) simp_all
  then show ?thesis by (simp add: excerpt_def)
qed

lemma excerpt_overrun:
  assumes "length log \<le> lineno + 10"
    and "\<And>j. 1 \<le> j \<Longrightarrow> lineno + j < length log \<Longrightarrow> \<not> prefix ''l.'' (log ! (lineno + j))"
  shows "excerpt log lineno = Inl IndexError"
proof -
  have "find_marker log lineno 1 10 = Inl IndexError"
    using assms by (intro find_marker_overrun) simp_all
  then show ?thesis by (simp add: excerpt_def)
qed

lemma excerpt_no_marker:
  assumes "lineno + 10 < length log"
    and "\<And>j. 1 \<le> j \<Longrightarrow> j \<le> 10 \<Longrightarrow> \<not> prefix ''l.'' (log ! (lineno + j))"
  shows "excerpt log lineno = Inr (take 12 (drop lineno log))"
proof -
  have "find_marker log lineno 1 10 = Inr (1 + 10)"
    using assms by (intro find_marker_exhausted) simp_all
  then show ?thesis by (simp add: excerpt_def)
qed

text \<open>
  Claim C4.  For a line of the log that starts with \<^verbatim>\<open>!\<close>, the excerpt runs from that
  line through the first later line that starts with \<^verbatim>\<open>l.\<close>, and holds at most ten
  lines after the error line when there is no such line.  The source reads the ten
  lines after the error line without looking at the length of the log.  On a log that
  ends within ten lines of an error line, with no line starting with \<^verbatim>\<open>l.\<close> after it,
  the read past the end raises \<^verbatim>\<open>IndexError\<close>: no excerpt is produced and
  \<^verbatim>\<open>compile_tex\<close> ends with that exception.  On a longer log with no such line among
  the ten, the excerpt holds eleven lines after the error line.
\<close>

theorem excerpt_past_end_of_log:
  "readlines stopped_log = [''! Emergency stop.'' @ nl, ''No pages of output.'' @ nl] \<and>
   log_error_pos (readlines stopped_log) = [0] \<and>
   excerpt (readlines stopped_log) 0 = Inl IndexError \<and>
   fst (compile_tex (exit_with 1) example_config ''media/Tex/2fb18596ac456aff.tex'' ''latex''
          ''.dvi''
          (world_of [(''media/Tex/2fb18596ac456aff.tex'', ''doc''),
                     (''media/Tex/2fb18596ac456aff.log'', stopped_log)] [''media/Tex''])) =
     Inl IndexError \<and>
   excerpt (''! a'' # replicate 12 ''b'') 0 = Inr (''! a'' # replicate 11 ''b'')"
  by (intro conjI; code_simp)

section \<open>Properties of \<^verbatim>\<open>convert_to_svg\<close>\<close>



text \<open>
  Claim C6.  The result of \<^verbatim>\<open>convert_to_svg\<close> is decided by the existence of the
  expected picture in the world the call ends in: its path when it exists,
  \<^const>\<open>ConversionUnsupported\<close> when it does not.  That world is the initial one when the
  picture was there, and the one after the run of the converter otherwise.  The exit
  status of the converter has no part in it: two converters that act on the disk in the
  same way and exit with different statuses give the same result and the same world.
\<close>

theorem convert_to_svg_verification:
  "fst (convert_to_svg sys dvi_file extension page w) =
     (if path_exists (snd (convert_to_svg sys dvi_file extension page w))
           (svg_result dvi_file extension)
      then Inr (svg_result dvi_file extension)
      else Inl (ConversionUnsupported extension)) \<and>
   snd (convert_to_svg sys dvi_file extension page w) =
     (if path_exists w (svg_result dvi_file extension) then w
      else snd (os_system sys (dvisvgm_command dvi_file extension page) w)) \<and>
   convert_to_svg (\<lambda>command disk. (status command disk, effect command disk))
       dvi_file extension page w =
   convert_to_svg (\<lambda>command disk. (status' command disk, effect command disk))
       dvi_file extension page w"
  by (simp add: convert_to_svg_def Let_def os_system_def)

text \<open>
  A converter that exits with status 0 and writes nothing, and one that exits with
  status 1 and writes the picture.
\<close>

theorem convert_to_svg_verification_example:
  "fst (convert_to_svg (exit_with 0) ''media/Tex/2fb18596ac456aff.dvi'' ''.dvi'' 1
       (world_of [(''media/Tex/2fb18596ac456aff.dvi'', ''dvi'')] [''media/Tex''])) =
     Inl (ConversionUnsupported ''.dvi'') \<and>
   fst (convert_to_svg (writing_tools 1) ''media/Tex/2fb18596ac456aff.dvi'' ''.dvi'' 1
       (world_of [(''media/Tex/2fb18596ac456aff.dvi'', ''dvi'')] [''media/Tex''])) =
     Inr ''media/Tex/2fb18596ac456aff.svg''"
proof -
  let ?w = "world_of [(''media/Tex/2fb18596ac456aff.dvi'', ''dvi'')] [''media/Tex'']"
  let ?d = "''media/Tex/2fb18596ac456aff.dvi''"
  have m: "\<not> path_exists ?w (svg_result ?d ''.dvi'')"
    by (simp add: example_paths world_simps)
  note a = convert_to_svg_verification [of "exit_with 0" ?d "''.dvi''" 1 ?w]
  note b = convert_to_svg_verification [of "writing_tools 1" ?d "''.dvi''" 1 ?w]
  from a m have sa: "snd (convert_to_svg (exit_with 0) ?d ''.dvi'' 1 ?w) =
      snd (os_system (exit_with 0) (dvisvgm_command ?d ''.dvi'' 1) ?w)"
    by simp
  from b m have sb: "snd (convert_to_svg (writing_tools 1) ?d ''.dvi'' 1 ?w) =
      snd (os_system (writing_tools 1) (dvisvgm_command ?d ''.dvi'' 1) ?w)"
    by simp
  have 1: "\<not> path_exists (snd (convert_to_svg (exit_with 0) ?d ''.dvi'' 1 ?w))
      (svg_result ?d ''.dvi'')"
    unfolding sa path_exists_after_exit_with by (rule m)
  have 2: "path_exists (snd (convert_to_svg (writing_tools 1) ?d ''.dvi'' 1 ?w))
      (svg_result ?d ''.dvi'')"
    unfolding sb path_exists_after_dvisvgm by (simp add: example_paths)
  from a 1 have 3: "fst (convert_to_svg (exit_with 0) ?d ''.dvi'' 1 ?w) =
      Inl (ConversionUnsupported ''.dvi'')"
    by simp
  from b 2 have 4: "fst (convert_to_svg (writing_tools 1) ?d ''.dvi'' 1 ?w) =
      Inr (svg_result ?d ''.dvi'')"
    by simp
  from 3 4 show ?thesis
    by (simp only: example_paths simp_thms)
qed

section \<open>Properties of \<^verbatim>\<open>tex_to_svg_file\<close>\<close>

lemma resolve_template_Some [simp]: "resolve_template cfg (Some t) = t"
  by (simp add: resolve_template_def)










end
